theory Spec2Isabelle
  imports Main "HOL-Library.Multiset"
begin

section \<open>Data model of \<^verbatim>\<open>src/App.tsx\<close>\<close>

text \<open>
  The league manager keeps its whole state in React hooks of one component. The embedding
  below follows the TypeScript interfaces field by field.

  Conventions of the embedding:
  \<^item> a TypeScript \<^verbatim>\<open>number\<close> that holds a count or a score is an \<^typ>\<open>int\<close> (counters that
    are only ever incremented from zero are \<^typ>\<open>nat\<close>); the floating point value
    \<^verbatim>\<open>NaN\<close> that \<^verbatim>\<open>parseInt\<close> can return is outside the embedding;
  \<^item> a score of type \<^verbatim>\<open>number | ''\<close> is an \<^typ>\<open>int option\<close>, \<^term>\<open>None\<close> being the empty
    string (score not entered);
  \<^item> an optional field (\<^verbatim>\<open>originalScores?\<close>) is an option; the optional booleans
    \<^verbatim>\<open>goalScorerMismatch?\<close> and \<^verbatim>\<open>isEditing?\<close> are read only through their truthiness and
    are plain booleans (\<^verbatim>\<open>undefined\<close> is \<^term>\<open>False\<close>);
  \<^item> strings are byte lists; field names \<^verbatim>\<open>id\<close> and \<^verbatim>\<open>name\<close> carry the name of their
    interface as a prefix, because they occur in several interfaces.
\<close>

record Player =
  player_id :: string
  player_name :: string

record Team =
  team_id :: string
  team_name :: string
  players :: "Player list"

record TeamStat =
  stat_name :: string
  played :: int
  wins :: int
  draws :: int
  losses :: int
  gf :: int
  ga :: int
  gd :: int
  points :: int

record ScorerEntry =
  playerId :: string
  playerName :: string
  goals :: int

record MatchResult =
  team1Id :: string
  team2Id :: string
  team1Score :: "int option"
  team2Score :: "int option"
  team1GoalScorers :: "ScorerEntry list"
  team2GoalScorers :: "ScorerEntry list"
  saved :: bool
  goalScorerMismatch :: bool
  isEditing :: bool
  originalScores :: "(int option \<times> int option) option"
  originalGoalScorers :: "(ScorerEntry list \<times> ScorerEntry list) option"

text \<open>
  \<^verbatim>\<open>SavedLeagueState\<close>: the snapshot written to the persistence store. Its fields carry
  the prefix \<^verbatim>\<open>snap_\<close> to keep them apart from the live state's fields of the same name.
\<close>

record SavedLeagueState =
  snap_numTeams :: nat
  snap_numPlayersPerTeam :: nat
  snap_submittedTeamData :: "Team list"
  snap_matchResults :: "MatchResult list"
  snap_teamStats :: "TeamStat list"
  snap_roundNumber :: nat
  snap_allPlayedPairs :: "string list"
  snap_globalIdCounterValue :: nat

datatype AppStage = InitialScreen | SetupCounts | NamingTeamsAndPlayers | LoadLeagueOptions

datatype ModalType = Alert | Confirm

datatype LeagueView = MatchesView | TopScorersView | MatchResultsSummaryView

text \<open>
  The warning texts of the source are fixed Persian sentences; each is one constructor.
  \<^term>\<open>NoMessage\<close> is the empty string.
\<close>

datatype Message = NoMessage | EnterBothScores | GoalsDoNotMatchScore | EnterLeagueName
  | OtherMessage

text \<open>The two literal unions that select a side of a match.\<close>

datatype TeamKey = Team1Key | Team2Key

datatype TeamNum = One | Two

text \<open>
  What a handler does on an index outside its array: reading a property of
  \<^verbatim>\<open>undefined\<close> throws a \<^verbatim>\<open>TypeError\<close>; assigning past the end stores an object that
  lacks the fields of its interface (\<^term>\<open>MalformedEntry\<close>), which no value of the
  record types above represents.
\<close>

datatype js_error = TypeError | MalformedEntry

text \<open>
  The live state: every \<^verbatim>\<open>useState\<close> hook of the component that a modelled handler
  reads or writes, and the module-level \<^verbatim>\<open>globalIdCounter\<close>. A fixture of \<^verbatim>\<open>matches\<close> is
  the two-element array \<^verbatim>\<open>[team1Name, team2Name]\<close>, here a pair. The JavaScript
  \<^verbatim>\<open>Set\<close> \<^verbatim>\<open>allPlayedPairs\<close> is the list of its elements in insertion order.
\<close>

record app_state =
  numTeams :: nat
  numPlayersPerTeam :: nat
  teamData :: "Team list"
  submittedTeamData :: "Team list"
  matches :: "(string \<times> string) list"
  matchResults :: "MatchResult list"
  teamStats :: "TeamStat list"
  roundNumber :: nat
  allPlayedPairs :: "string list"
  appStage :: AppStage
  currentTeamIndex :: nat
  savedLeagues :: "string \<rightharpoonup> SavedLeagueState"
  currentLeagueName :: "string option"
  showSaveLeagueModal :: bool
  saveLeagueInputName :: string
  showOverwriteConfirm :: bool
  leagueNameToOverwrite :: string
  showWarningModal :: bool
  warningMessage :: Message
  warningModalType :: ModalType
  activeLeagueView :: LeagueView
  currentMatchViewIndex :: nat
  globalIdCounter :: nat

section \<open>Library functions of the host language\<close>

text \<open>\<^verbatim>\<open>Array.prototype.findIndex\<close>; \<^term>\<open>None\<close> is the result \<^verbatim>\<open>-1\<close>.\<close>

fun findIndex :: "('a \<Rightarrow> bool) \<Rightarrow> 'a list \<Rightarrow> nat option" where
  "findIndex P [] = None"
| "findIndex P (x # xs) = (if P x then Some 0 else map_option Suc (findIndex P xs))"

text \<open>\<^verbatim>\<open>Set.prototype.add\<close> and \<^verbatim>\<open>new Set(iterable)\<close> on the insertion-ordered list.\<close>

definition set_add :: "string list \<Rightarrow> string \<Rightarrow> string list" where
  "set_add xs x = (if x \<in> set xs then xs else xs @ [x])"

definition new_Set :: "string list \<Rightarrow> string list" where
  "new_Set xs = foldl set_add [] xs"

text \<open>
  The default comparison of \<^verbatim>\<open>Array.prototype.sort\<close> on strings, unit by unit
  (bytes here, UTF-16 code units in the source).
\<close>

fun string_less :: "string \<Rightarrow> string \<Rightarrow> bool" where
  "string_less [] [] = False"
| "string_less [] (y # ys) = True"
| "string_less (x # xs) [] = False"
| "string_less (x # xs) (y # ys) =
     ((of_char x :: nat) < of_char y \<or> (x = y \<and> string_less xs ys))"

text \<open>
  \<^verbatim>\<open>String.prototype.trim\<close>, for the ASCII white space characters (the further Unicode
  blanks that the source's \<^verbatim>\<open>trim\<close> strips are several bytes each and are not modelled).
\<close>

definition is_space :: "char \<Rightarrow> bool" where
  "is_space c = (c \<in> set [CHR '' '', CHR 0x09, CHR 0x0A, CHR 0x0B, CHR 0x0C, CHR 0x0D])"

definition trim :: "string \<Rightarrow> string" where
  "trim s = rev (dropWhile is_space (rev (dropWhile is_space s)))"

section \<open>Small helpers of the component\<close>

definition normalizePair :: "string \<Rightarrow> string \<Rightarrow> string" where
  "normalizePair teamA teamB =
     (let sortedNames = (if string_less teamB teamA then [teamB, teamA] else [teamA, teamB])
      in sortedNames ! 0 @ ''-'' @ sortedNames ! 1)"

definition findFirstUnsavedMatchIndex :: "MatchResult list \<Rightarrow> nat" where
  "findFirstUnsavedMatchIndex results =
     (case findIndex (\<lambda>match. \<not> saved match) results of
        Some firstUnsavedIndex \<Rightarrow> firstUnsavedIndex
      | None \<Rightarrow> 0)"

text \<open>
  The placeholder that \<^verbatim>\<open>handleLoadLeague\<close> shows for a team it cannot find: the
  UTF-8 bytes of the Persian word for ``unknown''.
\<close>

definition unknownName :: string where
  "unknownName = [CHR 0xD9, CHR 0x86, CHR 0xD8, CHR 0xA7, CHR 0xD9, CHR 0x85,
                  CHR 0xD8, CHR 0xB4, CHR 0xD8, CHR 0xAE, CHR 0xD8, CHR 0xB5]"

section \<open>Fixture generator\<close>

text \<open>
  \<^verbatim>\<open>generateAllRoundRobinMatches\<close>. The two nested \<^verbatim>\<open>for\<close> loops push onto
  \<^verbatim>\<open>newMatches\<close>; each is a recursive function over its loop variable.
\<close>

function pairLoopInner ::
  "string list \<Rightarrow> nat \<Rightarrow> nat \<Rightarrow> (string \<times> string) list \<Rightarrow> (string \<times> string) list" where
  "pairLoopInner teamNames i j newMatches =
     (if j < length teamNames
      then pairLoopInner teamNames i (j + 1) (newMatches @ [(teamNames ! i, teamNames ! j)])
      else newMatches)"
  by pat_completeness auto
termination
  by (relation "measure (\<lambda>(teamNames, i, j, newMatches). length teamNames - j)") auto

function pairLoopOuter ::
  "string list \<Rightarrow> nat \<Rightarrow> (string \<times> string) list \<Rightarrow> (string \<times> string) list" where
  "pairLoopOuter teamNames i newMatches =
     (if i < length teamNames
      then pairLoopOuter teamNames (i + 1) (pairLoopInner teamNames i (i + 1) newMatches)
      else newMatches)"
  by pat_completeness auto
termination
  by (relation "measure (\<lambda>(teamNames, i, newMatches). length teamNames - i)") auto

text \<open>The two loop equations are unfolded only on demand.\<close>

declare pairLoopInner.simps [simp del] pairLoopOuter.simps [simp del]

text \<open>\<^verbatim>\<open>team?.id || ''\<close>: the identity of the team found, the empty string otherwise.\<close>

definition idOrEmpty :: "Team option \<Rightarrow> string" where
  "idOrEmpty t = (case t of Some team \<Rightarrow> team_id team | None \<Rightarrow> [])"

definition newMatchResult :: "Team list \<Rightarrow> string \<times> string \<Rightarrow> MatchResult" where
  "newMatchResult teams match =
     (let team1 = find (\<lambda>t. team_name t = fst match) teams;
          team2 = find (\<lambda>t. team_name t = snd match) teams
      in \<lparr> team1Id = idOrEmpty team1, team2Id = idOrEmpty team2,
           team1Score = None, team2Score = None,
           team1GoalScorers = [], team2GoalScorers = [],
           saved = False, goalScorerMismatch = False, isEditing = False,
           originalScores = None, originalGoalScorers = None \<rparr>)"

text \<open>
  The function returns \<^verbatim>\<open>{ newMatches, newMatchResults }\<close>; with fewer than two teams it
  also empties the fixtures, the results and the played pairs of the live state.
\<close>

definition generateAllRoundRobinMatches ::
  "app_state \<Rightarrow> Team list \<Rightarrow> app_state \<times> (string \<times> string) list \<times> MatchResult list" where
  "generateAllRoundRobinMatches s teams =
     (let teamNames = map team_name teams in
      if length teamNames < 2
      then (s\<lparr> matches := [], matchResults := [], allPlayedPairs := [] \<rparr>, [], [])
      else (let newMatches = pairLoopOuter teamNames 0 [];
                newMatchResults = map (newMatchResult teams) newMatches
            in (s, newMatches, newMatchResults)))"

section \<open>Match result ledger\<close>

text \<open>
  Every handler replaces the entry at \<^verbatim>\<open>matchIndex\<close> of \<^verbatim>\<open>matchResults\<close>. The
  \<^verbatim>\<open>value\<close> of a number input is the empty string or a numeral; the handlers below take
  it after \<^verbatim>\<open>parseInt\<close>, \<^term>\<open>None\<close> being the empty string.
\<close>

definition handleScoreChange ::
  "app_state \<Rightarrow> nat \<Rightarrow> TeamKey \<Rightarrow> int option \<Rightarrow> js_error + app_state" where
  "handleScoreChange s matchIndex team score =
     (if matchIndex \<ge> length (matchResults s) then Inl MalformedEntry
      else
        let cur = matchResults s ! matchIndex;
            new = (case team of
                     Team1Key \<Rightarrow> cur\<lparr> team1Score := score, goalScorerMismatch := False \<rparr>
                   | Team2Key \<Rightarrow> cur\<lparr> team2Score := score, goalScorerMismatch := False \<rparr>)
        in Inr (s\<lparr> matchResults := (matchResults s)[matchIndex := new] \<rparr>))"

definition sideScorers :: "TeamNum \<Rightarrow> MatchResult \<Rightarrow> ScorerEntry list" where
  "sideScorers teamNum m = (case teamNum of One \<Rightarrow> team1GoalScorers m | Two \<Rightarrow> team2GoalScorers m)"

definition setSideScorers :: "TeamNum \<Rightarrow> ScorerEntry list \<Rightarrow> MatchResult \<Rightarrow> MatchResult" where
  "setSideScorers teamNum scs m =
     (case teamNum of One \<Rightarrow> m\<lparr> team1GoalScorers := scs \<rparr> | Two \<Rightarrow> m\<lparr> team2GoalScorers := scs \<rparr>)"

definition handlePlayerGoalChange ::
  "app_state \<Rightarrow> nat \<Rightarrow> TeamNum \<Rightarrow> nat \<Rightarrow> int option \<Rightarrow> js_error + app_state" where
  "handlePlayerGoalChange s matchIndex teamNum scorerIndex v =
     (if matchIndex \<ge> length (matchResults s) then Inl TypeError
      else
        let currentMatchResult = matchResults s ! matchIndex;
            g = (case v of None \<Rightarrow> 0 | Some n \<Rightarrow> n);
            old = sideScorers teamNum currentMatchResult
        in if scorerIndex \<ge> length old then Inl MalformedEntry
           else
             let newGoalScorers = old[scorerIndex := (old ! scorerIndex)\<lparr> goals := g \<rparr>];
                 new = (setSideScorers teamNum newGoalScorers currentMatchResult)
                         \<lparr> goalScorerMismatch := False \<rparr>
             in Inr (s\<lparr> matchResults := (matchResults s)[matchIndex := new] \<rparr>))"

definition handleSelectGoalScorer ::
  "app_state \<Rightarrow> nat \<Rightarrow> TeamNum \<Rightarrow> string \<Rightarrow> js_error + app_state" where
  "handleSelectGoalScorer s matchIndex teamNum pid =
     (if pid = [] then Inr s
      else if matchIndex \<ge> length (matchResults s) then Inl TypeError
      else
        let currentMatchResult = matchResults s ! matchIndex;
            teamIdToFind = (case teamNum of One \<Rightarrow> team1Id currentMatchResult
                                          | Two \<Rightarrow> team2Id currentMatchResult);
            teamPlayers = (case find (\<lambda>t. team_id t = teamIdToFind) (submittedTeamData s) of
                             Some t \<Rightarrow> players t | None \<Rightarrow> []);
            old = sideScorers teamNum currentMatchResult;
            newGoalScorers =
              (if \<not> list_ex (\<lambda>scorer. playerId scorer = pid) old
               then (case find (\<lambda>p. player_id p = pid) teamPlayers of
                       Some player \<Rightarrow>
                         old @ [\<lparr> playerId = player_id player, playerName = player_name player,
                                  goals = 1 \<rparr>]
                     | None \<Rightarrow> old)
               else old);
            new = (setSideScorers teamNum newGoalScorers currentMatchResult)
                    \<lparr> goalScorerMismatch := False \<rparr>
        in Inr (s\<lparr> matchResults := (matchResults s)[matchIndex := new] \<rparr>))"

definition handleRemoveGoalScorer ::
  "app_state \<Rightarrow> nat \<Rightarrow> TeamNum \<Rightarrow> string \<Rightarrow> js_error + app_state" where
  "handleRemoveGoalScorer s matchIndex teamNum scorerIdToRemove =
     (if matchIndex \<ge> length (matchResults s) then Inl TypeError
      else
        let currentMatchResult = matchResults s ! matchIndex;
            newGoalScorers =
              filter (\<lambda>sc. playerId sc \<noteq> scorerIdToRemove) (sideScorers teamNum currentMatchResult);
            new = (setSideScorers teamNum newGoalScorers currentMatchResult)
                    \<lparr> goalScorerMismatch := False \<rparr>
        in Inr (s\<lparr> matchResults := (matchResults s)[matchIndex := new] \<rparr>))"

section \<open>Standings accumulator\<close>

text \<open>
  \<^verbatim>\<open>updateStatEntry\<close> mutates a copy of one entry; \<^verbatim>\<open>multiplier\<close> is \<^verbatim>\<open>1\<close> to add a
  match and \<^verbatim>\<open>-1\<close> to take it back.
\<close>

definition updateStatEntry :: "TeamStat \<Rightarrow> int \<Rightarrow> int \<Rightarrow> int \<Rightarrow> TeamStat" where
  "updateStatEntry teamStat currentScore opponentScore mul =
     (let t1 = teamStat\<lparr> played := played teamStat + 1 * mul,
                         gf := gf teamStat + currentScore * mul,
                         ga := ga teamStat + opponentScore * mul \<rparr>;
          t2 = (if currentScore > opponentScore
                then t1\<lparr> wins := wins t1 + 1 * mul, points := points t1 + 3 * mul \<rparr>
                else if currentScore < opponentScore
                then t1\<lparr> losses := losses t1 + 1 * mul \<rparr>
                else t1\<lparr> draws := draws t1 + 1 * mul, points := points t1 + 1 * mul \<rparr>)
      in t2\<lparr> gd := gf t2 - ga t2 \<rparr>)"

definition updateAt :: "TeamStat list \<Rightarrow> nat option \<Rightarrow> int \<Rightarrow> int \<Rightarrow> int \<Rightarrow> TeamStat list" where
  "updateAt newStats teamIndex currentScore opponentScore mul =
     (case teamIndex of
        Some k \<Rightarrow> newStats[k := updateStatEntry (newStats ! k) currentScore opponentScore mul]
      | None \<Rightarrow> newStats)"

definition applyMatchStatsToTeams ::
  "TeamStat list \<Rightarrow> MatchResult \<Rightarrow> Team list \<Rightarrow> int \<Rightarrow> TeamStat list" where
  "applyMatchStatsToTeams stats match submittedTeams multiplier =
     (case (team1Score match, team2Score match) of
        (Some score1, Some score2) \<Rightarrow>
          (case (find (\<lambda>t. team_id t = team1Id match) submittedTeams,
                 find (\<lambda>t. team_id t = team2Id match) submittedTeams) of
             (Some team1, Some team2) \<Rightarrow>
               (let team1Index = findIndex (\<lambda>t. stat_name t = team_name team1) stats;
                    team2Index = findIndex (\<lambda>t. stat_name t = team_name team2) stats
                in updateAt (updateAt stats team1Index score1 score2 multiplier)
                     team2Index score2 score1 multiplier)
           | _ \<Rightarrow> stats)
      | _ \<Rightarrow> stats)"

section \<open>Saving, editing and cancelling a result\<close>

definition goalsSum :: "ScorerEntry list \<Rightarrow> int" where
  "goalsSum scorers = foldl (\<lambda>sum p. sum + goals p) 0 scorers"

definition handleSaveResult :: "app_state \<Rightarrow> nat \<Rightarrow> js_error + app_state" where
  "handleSaveResult s matchIndex =
     (if matchIndex \<ge> length (matchResults s) then Inl TypeError
      else
        let resultToSave = matchResults s ! matchIndex in
        case (team1Score resultToSave, team2Score resultToSave) of
          (Some score1, Some score2) \<Rightarrow>
            (let mismatch =
                   (numPlayersPerTeam s > 0 \<and>
                    (goalsSum (team1GoalScorers resultToSave) \<noteq> score1 \<or>
                     goalsSum (team2GoalScorers resultToSave) \<noteq> score2))
             in if mismatch
                then Inr (s\<lparr> warningMessage := GoalsDoNotMatchScore,
                            warningModalType := Alert,
                            showWarningModal := True,
                            matchResults := (matchResults s)
                              [matchIndex := resultToSave\<lparr> goalScorerMismatch := True \<rparr>] \<rparr>)
                else if matchIndex \<ge> length (matches s) then Inl TypeError
                else
                  (let reverted =
                         (if saved resultToSave \<and> isEditing resultToSave
                          then (case originalScores resultToSave of
                                  Some orig \<Rightarrow>
                                    applyMatchStatsToTeams (teamStats s)
                                      (resultToSave\<lparr> team1Score := fst orig,
                                                     team2Score := snd orig \<rparr>)
                                      (submittedTeamData s) (- 1)
                                | None \<Rightarrow> teamStats s)
                          else teamStats s);
                       currentStats =
                         applyMatchStatsToTeams reverted resultToSave (submittedTeamData s) 1;
                       newResults = (matchResults s)
                         [matchIndex := resultToSave\<lparr> saved := True, isEditing := False,
                                                       originalScores := None,
                                                       originalGoalScorers := None,
                                                       goalScorerMismatch := False \<rparr>];
                       playedPairKey =
                         normalizePair (fst (matches s ! matchIndex)) (snd (matches s ! matchIndex))
                   in Inr (s\<lparr> teamStats := currentStats,
                              matchResults := newResults,
                              currentMatchViewIndex := findFirstUnsavedMatchIndex newResults,
                              allPlayedPairs :=
                                (if playedPairKey \<noteq> [] then set_add (allPlayedPairs s) playedPairKey
                                 else allPlayedPairs s) \<rparr>)))
        | _ \<Rightarrow> Inr (s\<lparr> warningMessage := EnterBothScores,
                       warningModalType := Alert,
                       showWarningModal := True \<rparr>))"

definition handleEditResult :: "app_state \<Rightarrow> nat \<Rightarrow> js_error + app_state" where
  "handleEditResult s matchIndex =
     (if matchIndex \<ge> length (matchResults s) then Inl TypeError
      else
        let currentMatch = matchResults s ! matchIndex;
            new = currentMatch
              \<lparr> isEditing := True,
                originalScores := Some (team1Score currentMatch, team2Score currentMatch),
                originalGoalScorers :=
                  Some (team1GoalScorers currentMatch, team2GoalScorers currentMatch),
                goalScorerMismatch := False \<rparr>
        in Inr (s\<lparr> matchResults := (matchResults s)[matchIndex := new] \<rparr>))"

definition handleCancelEdit :: "app_state \<Rightarrow> nat \<Rightarrow> js_error + app_state" where
  "handleCancelEdit s matchIndex =
     (if matchIndex \<ge> length (matchResults s) then Inl TypeError
      else
        let currentMatch = matchResults s ! matchIndex;
            new = (case (originalScores currentMatch, originalGoalScorers currentMatch) of
                     (Some os, Some og) \<Rightarrow>
                       currentMatch\<lparr> team1Score := fst os, team2Score := snd os,
                                     team1GoalScorers := fst og, team2GoalScorers := snd og,
                                     isEditing := False,
                                     originalScores := None, originalGoalScorers := None,
                                     goalScorerMismatch := False \<rparr>
                   | _ \<Rightarrow> currentMatch\<lparr> isEditing := False, goalScorerMismatch := False \<rparr>)
        in Inr (s\<lparr> matchResults := (matchResults s)[matchIndex := new] \<rparr>))"

section \<open>Starting and resetting a league\<close>

definition resetGameStates :: "app_state \<Rightarrow> app_state" where
  "resetGameStates s =
     s\<lparr> numTeams := 0, numPlayersPerTeam := 0, teamData := [], submittedTeamData := [],
        matches := [], matchResults := [], teamStats := [], roundNumber := 0,
        allPlayedPairs := [], appStage := InitialScreen, currentTeamIndex := 0,
        currentLeagueName := None, globalIdCounter := 0,
        activeLeagueView := MatchesView, currentMatchViewIndex := 0 \<rparr>"

definition zeroStat :: "Team \<Rightarrow> TeamStat" where
  "zeroStat team =
     \<lparr> stat_name = team_name team, played = 0, wins = 0, draws = 0, losses = 0,
       gf = 0, ga = 0, gd = 0, points = 0 \<rparr>"

definition startTheGames :: "app_state \<Rightarrow> Team list \<Rightarrow> app_state" where
  "startTheGames s teamsToUse =
     (let s1 = s\<lparr> submittedTeamData := teamsToUse \<rparr> in
      if length teamsToUse < 2 then s1\<lparr> matches := [], matchResults := [] \<rparr>
      else
        (let s2 = s1\<lparr> teamStats := map zeroStat teamsToUse \<rparr>;
             (s3, newMatches, newMatchResults) = generateAllRoundRobinMatches s2 teamsToUse
         in s3\<lparr> matches := newMatches, matchResults := newMatchResults,
                allPlayedPairs := [], roundNumber := 1,
                showWarningModal := False, warningModalType := Alert,
                activeLeagueView := MatchesView, currentMatchViewIndex := 0 \<rparr>))"

section \<open>League persistence store\<close>

text \<open>
  The store is the \<^verbatim>\<open>savedLeagues\<close> record, mirrored into local storage as one JSON
  text on every change and read back when the component mounts. JSON keeps every value
  of the snapshot type as it is, so the mirror is not modelled apart from the record.
\<close>

definition clearEditing :: "MatchResult \<Rightarrow> MatchResult" where
  "clearEditing m = m\<lparr> isEditing := False, originalScores := None, originalGoalScorers := None \<rparr>"

definition saveLeagueToStorage :: "app_state \<Rightarrow> string \<Rightarrow> SavedLeagueState \<Rightarrow> app_state" where
  "saveLeagueToStorage s leagueName st = s\<lparr> savedLeagues := (savedLeagues s)(leagueName \<mapsto> st) \<rparr>"

definition deleteLeagueFromStorage :: "app_state \<Rightarrow> string \<Rightarrow> app_state" where
  "deleteLeagueFromStorage s leagueName = s\<lparr> savedLeagues := (savedLeagues s)(leagueName := None) \<rparr>"

definition handleSaveLeagueClick :: "app_state \<Rightarrow> app_state" where
  "handleSaveLeagueClick s =
     s\<lparr> showSaveLeagueModal := True,
        saveLeagueInputName := (case currentLeagueName s of Some n \<Rightarrow> n | None \<Rightarrow> []),
        showOverwriteConfirm := False \<rparr>"

definition handleSaveLeagueConfirm :: "app_state \<Rightarrow> app_state" where
  "handleSaveLeagueConfirm s =
     (if trim (saveLeagueInputName s) = []
      then s\<lparr> warningMessage := EnterLeagueName, warningModalType := Alert,
              showWarningModal := True \<rparr>
      else
        (let leagueName = trim (saveLeagueInputName s) in
         if savedLeagues s leagueName \<noteq> None \<and> \<not> showOverwriteConfirm s
         then s\<lparr> leagueNameToOverwrite := leagueName, showOverwriteConfirm := True \<rparr>
         else
           (let stateToSave =
                  \<lparr> snap_numTeams = numTeams s,
                    snap_numPlayersPerTeam = numPlayersPerTeam s,
                    snap_submittedTeamData = submittedTeamData s,
                    snap_matchResults = map clearEditing (matchResults s),
                    snap_teamStats = teamStats s,
                    snap_roundNumber = roundNumber s,
                    snap_allPlayedPairs = allPlayedPairs s,
                    snap_globalIdCounterValue = globalIdCounter s \<rparr>
            in (saveLeagueToStorage s leagueName stateToSave)
                 \<lparr> currentLeagueName := Some leagueName, showSaveLeagueModal := False,
                   showOverwriteConfirm := False, saveLeagueInputName := [],
                   warningMessage := NoMessage \<rparr>)))"

definition handleCancelSaveLeague :: "app_state \<Rightarrow> app_state" where
  "handleCancelSaveLeague s =
     s\<lparr> showSaveLeagueModal := False, showOverwriteConfirm := False, saveLeagueInputName := [] \<rparr>"

text \<open>\<^verbatim>\<open>team?.name || placeholder\<close>: an empty name is falsy and gives the placeholder too.\<close>

definition nameOrUnknown :: "Team option \<Rightarrow> string" where
  "nameOrUnknown t =
     (case t of Some team \<Rightarrow> (if team_name team = [] then unknownName else team_name team)
              | None \<Rightarrow> unknownName)"

definition handleLoadLeague :: "app_state \<Rightarrow> string \<Rightarrow> app_state" where
  "handleLoadLeague s leagueName =
     (case savedLeagues s leagueName of
        None \<Rightarrow> s
      | Some leagueToLoad \<Rightarrow>
          (let loadedMatches =
                 map (\<lambda>mr. (nameOrUnknown (find (\<lambda>t. team_id t = team1Id mr)
                                             (snap_submittedTeamData leagueToLoad)),
                             nameOrUnknown (find (\<lambda>t. team_id t = team2Id mr)
                                             (snap_submittedTeamData leagueToLoad))))
                     (snap_matchResults leagueToLoad);
               cleanedMatchResults = map clearEditing (snap_matchResults leagueToLoad)
           in (resetGameStates s)
                \<lparr> numTeams := snap_numTeams leagueToLoad,
                  numPlayersPerTeam := snap_numPlayersPerTeam leagueToLoad,
                  submittedTeamData := snap_submittedTeamData leagueToLoad,
                  teamData := snap_submittedTeamData leagueToLoad,
                  matches := loadedMatches,
                  matchResults := cleanedMatchResults,
                  teamStats := snap_teamStats leagueToLoad,
                  roundNumber := snap_roundNumber leagueToLoad,
                  allPlayedPairs := new_Set (snap_allPlayedPairs leagueToLoad),
                  globalIdCounter := snap_globalIdCounterValue leagueToLoad,
                  currentLeagueName := Some leagueName,
                  appStage := (if snap_roundNumber leagueToLoad > 0
                               then NamingTeamsAndPlayers else SetupCounts),
                  activeLeagueView := MatchesView,
                  currentMatchViewIndex := findFirstUnsavedMatchIndex cleanedMatchResults \<rparr>))"

text \<open>\<^verbatim>\<open>handleDeleteLeague\<close> after the user has confirmed the browser's dialog.\<close>

definition handleDeleteLeague :: "app_state \<Rightarrow> string \<Rightarrow> app_state" where
  "handleDeleteLeague s leagueName =
     (let s1 = deleteLeagueFromStorage s leagueName;
          s2 = (if currentLeagueName s = Some leagueName
                then resetGameStates (s1\<lparr> currentLeagueName := None \<rparr>) else s1)
      in s2\<lparr> appStage := InitialScreen \<rparr>)"

section \<open>Top-scorer aggregation\<close>

text \<open>
  \<^verbatim>\<open>playerGoals\<close> is an object used as a dictionary from player identity to an entry.
  Its keys are generated identities of the form \<^verbatim>\<open>id-N\<close>, which an object keeps in
  insertion order; the dictionary is an association list in that order.
\<close>

record TopScorer =
  scorer_name :: string
  scorer_goals :: int
  scorer_teamName :: string

fun assign :: "string \<Rightarrow> TopScorer \<Rightarrow> (string \<times> TopScorer) list \<Rightarrow> (string \<times> TopScorer) list" where
  "assign k v [] = [(k, v)]"
| "assign k v (p # ps) = (if fst p = k then (k, v) # ps else p # assign k v ps)"

definition tallyScorer ::
  "string \<Rightarrow> (string \<times> TopScorer) list \<Rightarrow> ScorerEntry \<Rightarrow> (string \<times> TopScorer) list" where
  "tallyScorer teamName playerGoals scorer =
     (case map_of playerGoals (playerId scorer) of
        Some e \<Rightarrow> assign (playerId scorer) (e\<lparr> scorer_goals := scorer_goals e + goals scorer \<rparr>)
                    playerGoals
      | None \<Rightarrow> assign (playerId scorer)
                  \<lparr> scorer_name = playerName scorer, scorer_goals = goals scorer,
                    scorer_teamName = teamName \<rparr> playerGoals)"

definition teamNameOf :: "Team list \<Rightarrow> string \<Rightarrow> string" where
  "teamNameOf submittedTeams tid =
     (case find (\<lambda>t. team_id t = tid) submittedTeams of
        Some team \<Rightarrow> team_name team | None \<Rightarrow> ''Unknown Team'')"

definition tallyMatch ::
  "Team list \<Rightarrow> (string \<times> TopScorer) list \<Rightarrow> MatchResult \<Rightarrow> (string \<times> TopScorer) list" where
  "tallyMatch submittedTeams playerGoals match =
     (let pg1 = foldl (tallyScorer (teamNameOf submittedTeams (team1Id match))) playerGoals
                  (team1GoalScorers match)
      in foldl (tallyScorer (teamNameOf submittedTeams (team2Id match))) pg1
           (team2GoalScorers match))"

definition playerGoalsOf :: "MatchResult list \<Rightarrow> Team list \<Rightarrow> (string \<times> TopScorer) list" where
  "playerGoalsOf results submittedTeams = foldl (tallyMatch submittedTeams) [] results"

text \<open>
  \<^verbatim>\<open>sort((a, b) => b.goals - a.goals)\<close> is a stable sort by decreasing goals; the stable
  insertion sort on the key \<^verbatim>\<open>-goals\<close> returns the same list.
\<close>

definition calculateTopScorers :: "MatchResult list \<Rightarrow> Team list \<Rightarrow> TopScorer list" where
  "calculateTopScorers results submittedTeams =
     sort_key (\<lambda>e. - scorer_goals e) (map snd (playerGoalsOf results submittedTeams))"


section \<open>The component as a transition system\<close>

text \<open>
  The state when the component mounts: every hook at its initial value, the store as
  read from local storage, the identity counter at zero.
\<close>

definition initial_state :: "(string \<rightharpoonup> SavedLeagueState) \<Rightarrow> app_state" where
  "initial_state store =
     \<lparr> numTeams = 0, numPlayersPerTeam = 0, teamData = [], submittedTeamData = [],
       matches = [], matchResults = [], teamStats = [], roundNumber = 0,
       allPlayedPairs = [], appStage = InitialScreen, currentTeamIndex = 0,
       savedLeagues = store, currentLeagueName = None,
       showSaveLeagueModal = False, saveLeagueInputName = [],
       showOverwriteConfirm = False, leagueNameToOverwrite = [],
       showWarningModal = False, warningMessage = NoMessage, warningModalType = Alert,
       activeLeagueView = MatchesView, currentMatchViewIndex = 0, globalIdCounter = 0 \<rparr>"

text \<open>
  One event is one callback run to completion. The ledger events carry the index of the
  match; the rendered form offers them under the conditions of its JSX:
  \<^item> the score inputs, the scorer selector, the tally inputs and the remove buttons are
    disabled or hidden when \<^verbatim>\<open>!isEditing && saved\<close>;
  \<^item> the save button is rendered when \<^verbatim>\<open>!saved || isEditing\<close> and disabled while a score
    is empty; otherwise the edit button is rendered in its place;
  \<^item> the cancel button is rendered when \<^verbatim>\<open>isEditing\<close>;
  \<^item> the setup screens, with the button that starts the games, are rendered only while
    \<^verbatim>\<open>roundNumber === 0\<close>.

  The remaining conditions of the form (which view is active, which match is shown, which
  dialog is open) are left out, so the system below admits every run of the component and
  some more. The handlers of the setup screens, which only prepare \<^verbatim>\<open>numTeams\<close>,
  \<^verbatim>\<open>numPlayersPerTeam\<close>, \<^verbatim>\<open>teamData\<close> and the identity counter, are one event
  \<open>SetupScreens\<close> that may set these four to anything; the handlers that only switch
  screens, views and dialogs are one event \<open>ViewChange\<close>; \<open>StartGames\<close> is
  \<^verbatim>\<open>startTheGames\<close> on any list of teams; \<open>ResetGame\<close> is \<^verbatim>\<open>resetGameStates\<close>, reached
  from the exit, reset and new-league buttons; \<open>Reload\<close> restarts the page.
\<close>

datatype event =
    ScoreChange nat TeamKey "int option"
  | PlayerGoalChange nat TeamNum nat "int option"
  | SelectGoalScorer nat TeamNum string
  | RemoveGoalScorer nat TeamNum string
  | SaveResult nat
  | EditResult nat
  | CancelEdit nat
  | SetupScreens nat nat "Team list" nat
  | StartGames "Team list"
  | ResetGame
  | SaveLeagueClick
  | SaveLeagueInput string
  | SaveLeagueConfirm
  | CancelSaveLeague
  | LoadLeague string
  | DeleteLeague string
  | ViewChange AppStage LeagueView nat nat bool Message ModalType
  | Reload

definition inputsEnabled :: "MatchResult \<Rightarrow> bool" where
  "inputsEnabled r = (\<not> (\<not> isEditing r \<and> saved r))"

definition saveButtonOffered :: "MatchResult \<Rightarrow> bool" where
  "saveButtonOffered r =
     ((\<not> saved r \<or> isEditing r) \<and> \<not> (team1Score r = None \<or> team2Score r = None))"

definition editButtonOffered :: "MatchResult \<Rightarrow> bool" where
  "editButtonOffered r = (\<not> (\<not> saved r \<or> isEditing r))"

definition ok :: "js_error + 'a \<Rightarrow> 'a option" where
  "ok r = (case r of Inl e \<Rightarrow> None | Inr x \<Rightarrow> Some x)"

fun step :: "app_state \<Rightarrow> event \<Rightarrow> app_state option" where
  "step s (ScoreChange i team v) =
     (if i < length (matchResults s) \<and> inputsEnabled (matchResults s ! i)
      then ok (handleScoreChange s i team v) else None)"
| "step s (PlayerGoalChange i teamNum k v) =
     (if i < length (matchResults s) \<and> inputsEnabled (matchResults s ! i)
      then ok (handlePlayerGoalChange s i teamNum k v) else None)"
| "step s (SelectGoalScorer i teamNum pid) =
     (if i < length (matchResults s) \<and> inputsEnabled (matchResults s ! i)
      then ok (handleSelectGoalScorer s i teamNum pid) else None)"
| "step s (RemoveGoalScorer i teamNum pid) =
     (if i < length (matchResults s) \<and> inputsEnabled (matchResults s ! i)
      then ok (handleRemoveGoalScorer s i teamNum pid) else None)"
| "step s (SaveResult i) =
     (if i < length (matchResults s) \<and> saveButtonOffered (matchResults s ! i)
      then ok (handleSaveResult s i) else None)"
| "step s (EditResult i) =
     (if i < length (matchResults s) \<and> editButtonOffered (matchResults s ! i)
      then ok (handleEditResult s i) else None)"
| "step s (CancelEdit i) =
     (if i < length (matchResults s) \<and> isEditing (matchResults s ! i)
      then ok (handleCancelEdit s i) else None)"
| "step s (SetupScreens n p td c) =
     (if roundNumber s = 0
      then Some (s\<lparr> numTeams := n, numPlayersPerTeam := p, teamData := td,
                    globalIdCounter := c \<rparr>)
      else None)"
| "step s (StartGames teams) =
     (if roundNumber s = 0 then Some (startTheGames s teams) else None)"
| "step s ResetGame = Some (resetGameStates s)"
| "step s SaveLeagueClick = Some (handleSaveLeagueClick s)"
| "step s (SaveLeagueInput txt) = Some (s\<lparr> saveLeagueInputName := txt \<rparr>)"
| "step s SaveLeagueConfirm = Some (handleSaveLeagueConfirm s)"
| "step s CancelSaveLeague = Some (handleCancelSaveLeague s)"
| "step s (LoadLeague leagueName) = Some (handleLoadLeague s leagueName)"
| "step s (DeleteLeague leagueName) = Some (handleDeleteLeague s leagueName)"
| "step s (ViewChange stage view ti mi shown msg ty) =
     Some (s\<lparr> appStage := stage, activeLeagueView := view, currentTeamIndex := ti,
              currentMatchViewIndex := mi, showWarningModal := shown,
              warningMessage := msg, warningModalType := ty \<rparr>)"
| "step s Reload = Some (initial_state (savedLeagues s))"

fun run :: "app_state \<Rightarrow> event list \<Rightarrow> app_state option" where
  "run s [] = Some s"
| "run s (e # es) = (case step s e of None \<Rightarrow> None | Some s' \<Rightarrow> run s' es)"

fun isLoad :: "event \<Rightarrow> bool" where
  "isLoad (LoadLeague leagueName) = True"
| "isLoad e = False"

section \<open>Notions used to state the properties\<close>





definition gdConsistent :: "TeamStat list \<Rightarrow> bool" where
  "gdConsistent stats = list_all (\<lambda>t. gd t = gf t - ga t) stats"







text \<open>
  All goal tallies of a list of results in the order the aggregation visits them, each
  with the name of the team that its side of the match refers to.
\<close>

definition talliesOf :: "MatchResult list \<Rightarrow> Team list \<Rightarrow> (string \<times> ScorerEntry) list" where
  "talliesOf results submittedTeams =
     concat (map (\<lambda>m. map (Pair (teamNameOf submittedTeams (team1Id m))) (team1GoalScorers m) @
                      map (Pair (teamNameOf submittedTeams (team2Id m))) (team2GoalScorers m))
                 results)"

definition goalsOfPlayer :: "string \<Rightarrow> (string \<times> ScorerEntry) list \<Rightarrow> int" where
  "goalsOfPlayer pid ts = sum_list (map (goals \<circ> snd) (filter (\<lambda>p. playerId (snd p) = pid) ts))"



text \<open>Every snapshot in the store has consistent goal differences.\<close>

definition storeConsistent :: "app_state \<Rightarrow> bool" where
  "storeConsistent s = (\<forall>n snap. savedLeagues s n = Some snap \<longrightarrow> gdConsistent (snap_teamStats snap))"


section \<open>An example league\<close>

text \<open>Three teams of two players, the identities as \<^verbatim>\<open>generateUniqueId\<close> numbers them.\<close>

definition teamA :: Team where
  "teamA = \<lparr> team_id = ''id-0'', team_name = ''A'',
             players = [\<lparr> player_id = ''id-1'', player_name = ''a1'' \<rparr>,
                        \<lparr> player_id = ''id-2'', player_name = ''a2'' \<rparr>] \<rparr>"

definition teamB :: Team where
  "teamB = \<lparr> team_id = ''id-3'', team_name = ''B'',
             players = [\<lparr> player_id = ''id-4'', player_name = ''b1'' \<rparr>,
                        \<lparr> player_id = ''id-5'', player_name = ''b2'' \<rparr>] \<rparr>"

definition teamC :: Team where
  "teamC = \<lparr> team_id = ''id-6'', team_name = ''C'',
             players = [\<lparr> player_id = ''id-7'', player_name = ''c1'' \<rparr>,
                        \<lparr> player_id = ''id-8'', player_name = ''c2'' \<rparr>] \<rparr>"

text \<open>The fixture A-B as generated, with the two scores entered.\<close>

definition resultAB :: "int option \<Rightarrow> int option \<Rightarrow> MatchResult" where
  "resultAB a b = (newMatchResult [teamA, teamB] (''A'', ''B''))\<lparr> team1Score := a, team2Score := b \<rparr>"

text \<open>A league of A and B without rosters; the only match is entered as 2-1 and saved.\<close>

definition savedTwoOne :: "event list" where
  "savedTwoOne =
     [SetupScreens 2 0 [teamA\<lparr> players := [] \<rparr>, teamB\<lparr> players := [] \<rparr>] 2,
      StartGames [teamA\<lparr> players := [] \<rparr>, teamB\<lparr> players := [] \<rparr>],
      ScoreChange 0 Team1Key (Some 2), ScoreChange 0 Team2Key (Some 1), SaveResult 0]"

text \<open>
  The league of A and B once the games have started, with \<open>p\<close> players per team, the
  given result of its only match and the given standings.
\<close>

definition leagueAB :: "nat \<Rightarrow> MatchResult \<Rightarrow> TeamStat list \<Rightarrow> app_state" where
  "leagueAB p r stats =
     (startTheGames ((initial_state Map.empty)\<lparr> numTeams := 2, numPlayersPerTeam := p \<rparr>)
        [teamA, teamB])
       \<lparr> matchResults := [r], teamStats := stats \<rparr>"

definition zeroAB :: "TeamStat list" where
  "zeroAB = [zeroStat teamA, zeroStat teamB]"

text \<open>The standings after A beat B 2-1.\<close>

definition statsTwoOne :: "TeamStat list" where
  "statsTwoOne =
     [\<lparr> stat_name = ''A'', played = 1, wins = 1, draws = 0, losses = 0,
        gf = 2, ga = 1, gd = 1, points = 3 \<rparr>,
      \<lparr> stat_name = ''B'', played = 1, wins = 0, draws = 0, losses = 1,
        gf = 1, ga = 2, gd = - 1, points = 0 \<rparr>]"



text \<open>
  Two results of the league of A, B and C: A-B saved as 2-1, and A-C with one goal
  entered for A but not saved.
\<close>

definition twoResults :: "MatchResult list" where
  "twoResults =
     [(newMatchResult [teamA, teamB, teamC] (''A'', ''B''))
        \<lparr> team1Score := Some 2, team2Score := Some 1,
          team1GoalScorers := [\<lparr> playerId = ''id-1'', playerName = ''a1'', goals = 2 \<rparr>],
          team2GoalScorers := [\<lparr> playerId = ''id-4'', playerName = ''b1'', goals = 1 \<rparr>],
          saved := True \<rparr>,
      (newMatchResult [teamA, teamB, teamC] (''A'', ''C''))
        \<lparr> team1Score := Some 1,
          team1GoalScorers := [\<lparr> playerId = ''id-1'', playerName = ''a1'', goals = 1 \<rparr>] \<rparr>]"

section \<open>Notions used in the proofs\<close>

text \<open>The aggregation of the top scorers, one tally at a time.\<close>

definition tallyEntry ::
  "(string \<times> TopScorer) list \<Rightarrow> string \<times> ScorerEntry \<Rightarrow> (string \<times> TopScorer) list" where
  "tallyEntry pg p = tallyScorer (fst p) pg (snd p)"

text \<open>
  The dictionary entry of a player after the tallies \<open>xs\<close>, from the entry before them:
  an entry that exists gains the player's goals in \<open>xs\<close>; a new entry takes its names from
  the player's first tally in \<open>xs\<close>.
\<close>

definition combine ::
  "TopScorer option \<Rightarrow> string \<Rightarrow> (string \<times> ScorerEntry) list \<Rightarrow> TopScorer option" where
  "combine old pid xs =
     (case old of
        Some e \<Rightarrow> Some (e\<lparr> scorer_goals := scorer_goals e + goalsOfPlayer pid xs \<rparr>)
      | None \<Rightarrow>
          (case find (\<lambda>p. playerId (snd p) = pid) xs of
             None \<Rightarrow> None
           | Some p \<Rightarrow> Some \<lparr> scorer_name = playerName (snd p),
                              scorer_goals = goalsOfPlayer pid xs,
                              scorer_teamName = fst p \<rparr>))"

text \<open>Only saved results are in edit mode.\<close>

definition editingSaved :: "MatchResult list \<Rightarrow> bool" where
  "editingSaved rs = list_all (\<lambda>r. isEditing r \<longrightarrow> saved r) rs"

section \<open>The effect of a match on one row of the standings\<close>






section \<open>Totals of the standings and the results they count\<close>













section \<open>Evaluating the model on concrete inputs\<close>

lemmas model_defs = pairLoopInner.simps pairLoopOuter.simps ok_def initial_state_def startTheGames_def
  generateAllRoundRobinMatches_def newMatchResult_def idOrEmpty_def zeroStat_def
  handleScoreChange_def handleSaveResult_def handleEditResult_def handleCancelEdit_def
  applyMatchStatsToTeams_def updateAt_def updateStatEntry_def goalsSum_def
  inputsEnabled_def saveButtonOffered_def editButtonOffered_def normalizePair_def set_add_def
  findFirstUnsavedMatchIndex_def teamA_def teamB_def teamC_def Let_def

section \<open>Goal difference\<close>

lemma gd_updateStatEntry:
  "gd (updateStatEntry t a b k) = gf (updateStatEntry t a b k) - ga (updateStatEntry t a b k)"
  by (simp add: updateStatEntry_def Let_def)

lemma gdConsistent_update:
  "gdConsistent xs \<Longrightarrow> gd y = gf y - ga y \<Longrightarrow> gdConsistent (xs[k := y])"
  unfolding gdConsistent_def list_all_iff
  using set_update_subset_insert[of xs k y] by auto

lemma gdConsistent_updateAt:
  "gdConsistent xs \<Longrightarrow> gdConsistent (updateAt xs idx a b k)"
  by (simp add: updateAt_def gdConsistent_update gd_updateStatEntry split: option.splits)

lemma gdConsistent_apply:
  "gdConsistent stats \<Longrightarrow> gdConsistent (applyMatchStatsToTeams stats m teams k)"
  by (simp add: applyMatchStatsToTeams_def gdConsistent_updateAt Let_def split: option.splits)

lemma frame_handleScoreChange:
  "handleScoreChange s i t v = Inr s' \<Longrightarrow> teamStats s' = teamStats s \<and> savedLeagues s' = savedLeagues s"
  by (auto simp: handleScoreChange_def Let_def split: if_splits)

lemma frame_handlePlayerGoalChange:
  "handlePlayerGoalChange s i t k v = Inr s' \<Longrightarrow> teamStats s' = teamStats s \<and> savedLeagues s' = savedLeagues s"
  by (auto simp: handlePlayerGoalChange_def Let_def split: if_splits)

lemma frame_handleSelectGoalScorer:
  "handleSelectGoalScorer s i t p = Inr s' \<Longrightarrow> teamStats s' = teamStats s \<and> savedLeagues s' = savedLeagues s"
  by (auto simp: handleSelectGoalScorer_def Let_def split: if_splits)

lemma frame_handleRemoveGoalScorer:
  "handleRemoveGoalScorer s i t p = Inr s' \<Longrightarrow> teamStats s' = teamStats s \<and> savedLeagues s' = savedLeagues s"
  by (auto simp: handleRemoveGoalScorer_def Let_def split: if_splits)

lemma frame_handleEditResult:
  "handleEditResult s i = Inr s' \<Longrightarrow> teamStats s' = teamStats s \<and> savedLeagues s' = savedLeagues s"
  by (auto simp: handleEditResult_def Let_def split: if_splits)

lemma frame_handleCancelEdit:
  "handleCancelEdit s i = Inr s' \<Longrightarrow> teamStats s' = teamStats s \<and> savedLeagues s' = savedLeagues s"
  by (auto simp: handleCancelEdit_def Let_def split: if_splits)

lemma gd_handleSaveResult:
  "handleSaveResult s i = Inr s' \<Longrightarrow> gdConsistent (teamStats s) \<Longrightarrow>
     gdConsistent (teamStats s') \<and> savedLeagues s' = savedLeagues s"
  by (auto simp: handleSaveResult_def Let_def gdConsistent_apply split: if_splits option.splits)

lemma ok_Some: "ok r = Some x \<longleftrightarrow> r = Inr x"
  by (cases r) (auto simp: ok_def)

lemma gdConsistent_zero: "gdConsistent (map zeroStat teams)"
  by (simp add: gdConsistent_def list_all_iff zeroStat_def)

lemma gd_startTheGames:
  "gdConsistent (teamStats s) \<Longrightarrow> gdConsistent (teamStats (startTheGames s teams)) \<and> savedLeagues (startTheGames s teams) = savedLeagues s"
  by (simp add: startTheGames_def generateAllRoundRobinMatches_def Let_def gdConsistent_zero)

lemma gd_step:
  assumes "step s e = Some s'" "gdConsistent (teamStats s)" "storeConsistent s"
  shows "gdConsistent (teamStats s') \<and> storeConsistent s'"
proof (cases e)
  case (ScoreChange i t v)
  with assms show ?thesis
    by (auto simp: ok_Some storeConsistent_def split: if_splits dest!: frame_handleScoreChange)
next
  case (PlayerGoalChange i t k v)
  with assms show ?thesis
    by (auto simp: ok_Some storeConsistent_def split: if_splits dest!: frame_handlePlayerGoalChange)
next
  case (SelectGoalScorer i t p)
  with assms show ?thesis
    by (auto simp: ok_Some storeConsistent_def split: if_splits dest!: frame_handleSelectGoalScorer)
next
  case (RemoveGoalScorer i t p)
  with assms show ?thesis
    by (auto simp: ok_Some storeConsistent_def split: if_splits dest!: frame_handleRemoveGoalScorer)
next
  case (SaveResult i)
  with assms show ?thesis
    by (auto simp: ok_Some storeConsistent_def split: if_splits dest!: gd_handleSaveResult)
next
  case (EditResult i)
  with assms show ?thesis
    by (auto simp: ok_Some storeConsistent_def split: if_splits dest!: frame_handleEditResult)
next
  case (CancelEdit i)
  with assms show ?thesis
    by (auto simp: ok_Some storeConsistent_def split: if_splits dest!: frame_handleCancelEdit)
next
  case (SetupScreens n p td c)
  with assms show ?thesis
    by (auto simp: storeConsistent_def split: if_splits)
next
  case (StartGames teams)
  with assms show ?thesis
    using gd_startTheGames[of s teams]
    by (auto simp: storeConsistent_def split: if_splits)
next
  case ResetGame
  with assms show ?thesis
    by (auto simp: storeConsistent_def resetGameStates_def gdConsistent_def)
next
  case SaveLeagueClick
  with assms show ?thesis
    by (auto simp: storeConsistent_def handleSaveLeagueClick_def)
next
  case (SaveLeagueInput inp)
  with assms show ?thesis
    by (auto simp: storeConsistent_def)
next
  case SaveLeagueConfirm
  with assms show ?thesis
    by (auto simp: storeConsistent_def handleSaveLeagueConfirm_def saveLeagueToStorage_def Let_def split: if_splits)
next
  case CancelSaveLeague
  with assms show ?thesis
    by (auto simp: storeConsistent_def handleCancelSaveLeague_def)
next
  case (LoadLeague nm)
  with assms show ?thesis
    by (auto simp: storeConsistent_def handleLoadLeague_def resetGameStates_def Let_def split: option.splits)
next
  case (DeleteLeague nm)
  with assms show ?thesis
    by (auto simp: storeConsistent_def handleDeleteLeague_def deleteLeagueFromStorage_def resetGameStates_def gdConsistent_def Let_def split: if_splits)
next
  case (ViewChange a b c d e f g)
  with assms show ?thesis
    by (auto simp: storeConsistent_def)
next
  case Reload
  with assms show ?thesis
    by (auto simp: storeConsistent_def initial_state_def gdConsistent_def)
qed

lemma gd_run:
  "run s es = Some s' \<Longrightarrow> gdConsistent (teamStats s) \<Longrightarrow> storeConsistent s \<Longrightarrow>
     gdConsistent (teamStats s') \<and> storeConsistent s'"
proof (induction es arbitrary: s)
  case Nil
  then show ?case by simp
next
  case (Cons e es)
  then obtain s1 where s1: "step s e = Some s1" "run s1 es = Some s'"
    by (auto split: option.splits)
  from gd_step[OF s1(1) Cons.prems(2,3)] Cons.IH[OF s1(2)] show ?case by blast
qed


text \<open>
  Claim C8. The goal difference of every team equals its goals for minus its goals
  against: \<^verbatim>\<open>updateStatEntry\<close> recomputes it on every update, applying or reverting a
  match keeps the equation for the whole table, and it holds in every state that a run of
  the component reaches from its first start.
\<close>

theorem goal_difference_invariant:
  "gd (updateStatEntry t a b k) = gf (updateStatEntry t a b k) - ga (updateStatEntry t a b k) \<and>
   (gdConsistent stats \<longrightarrow> gdConsistent (applyMatchStatsToTeams stats m teams k)) \<and>
   (run (initial_state Map.empty) es = Some s \<longrightarrow> gdConsistent (teamStats s))"
proof (intro conjI impI)
  show "gd (updateStatEntry t a b k) = gf (updateStatEntry t a b k) - ga (updateStatEntry t a b k)"
    by (rule gd_updateStatEntry)
next
  assume "gdConsistent stats"
  then show "gdConsistent (applyMatchStatsToTeams stats m teams k)"
    by (rule gdConsistent_apply)
next
  assume r: "run (initial_state Map.empty) es = Some s"
  have "gdConsistent (teamStats (initial_state Map.empty))"
    by (simp add: initial_state_def gdConsistent_def)
  moreover have "storeConsistent (initial_state Map.empty)"
    by (simp add: initial_state_def storeConsistent_def)
  ultimately show "gdConsistent (teamStats s)"
    using gd_run[OF r] by blast
qed

theorem goal_difference_invariant_witness:
  "gdConsistent [zeroStat teamA, zeroStat teamB] \<and>
   gdConsistent (applyMatchStatsToTeams [zeroStat teamA, zeroStat teamB]
       (resultAB (Some 2) (Some 1)) [teamA, teamB] 1) \<and>
   map_option (\<lambda>s. gdConsistent (teamStats s)) (run (initial_state Map.empty) savedTwoOne)
     = Some True"
proof -
  have h: "gdConsistent [zeroStat teamA, zeroStat teamB]"
    by (simp add: gdConsistent_def zeroStat_def)
  have "\<exists>s. run (initial_state Map.empty) savedTwoOne = Some s"
    by (simp add: savedTwoOne_def model_defs)
  then obtain s where s: "run (initial_state Map.empty) savedTwoOne = Some s" ..
  show ?thesis
    using h s goal_difference_invariant[of _ _ _ 1 "[zeroStat teamA, zeroStat teamB]"
        "resultAB (Some 2) (Some 1)" "[teamA, teamB]" savedTwoOne s]
    by simp
qed

section \<open>Guards of the standings accumulator\<close>

text \<open>
  Claim C10. \<^verbatim>\<open>applyMatchStatsToTeams\<close> is guarded: when a score of the match is not
  set, or one of its two team identities is not found among the submitted teams, it
  returns the statistics list it was given, for adding as for reverting.
\<close>

theorem applyMatchStatsToTeams_guarded:
  "team1Score m = None \<or> team2Score m = None \<or>
   find (\<lambda>t. team_id t = team1Id m) teams = None \<or>
   find (\<lambda>t. team_id t = team2Id m) teams = None \<Longrightarrow>
   applyMatchStatsToTeams stats m teams k = stats"
  by (auto simp: applyMatchStatsToTeams_def split: option.splits)

theorem applyMatchStatsToTeams_guarded_witness:
  "team1Score (resultAB None (Some 1)) = None \<and>
   applyMatchStatsToTeams [zeroStat teamA, zeroStat teamB]
     (resultAB None (Some 1)) [teamA, teamB] (- 1)
   = [zeroStat teamA, zeroStat teamB]"
proof -
  have h: "team1Score (resultAB None (Some 1)) = None"
    by (simp add: resultAB_def)
  show ?thesis
    using h applyMatchStatsToTeams_guarded[of "resultAB None (Some 1)" "[teamA, teamB]"
        "[zeroStat teamA, zeroStat teamB]" "- 1"]
    by simp
qed

section \<open>Edit mode\<close>

lemma list_all_update_nth:
  "list_all P xs \<Longrightarrow> (P (xs ! i) \<Longrightarrow> P y) \<Longrightarrow> list_all P (xs[i := y])"
proof (cases "i < length xs")
  case True
  assume a: "list_all P xs" and b: "P (xs ! i) \<Longrightarrow> P y"
  from a True have "P (xs ! i)" by (simp add: list_all_length)
  with b have "P y" .
  with a show ?thesis
    using set_update_subset_insert[of xs i y] by (auto simp: list_all_iff)
next
  case False
  assume "list_all P xs"
  with False show ?thesis using list_update_beyond[of xs i y] by (simp add: not_less)
qed

lemma es_handleScoreChange:
  "handleScoreChange s i t v = Inr s' \<Longrightarrow> editingSaved (matchResults s) \<Longrightarrow> editingSaved (matchResults s')"
  unfolding editingSaved_def
  by (auto simp: handleScoreChange_def Let_def split: if_splits TeamKey.splits intro!: list_all_update_nth)

lemma es_handlePlayerGoalChange:
  "handlePlayerGoalChange s i t k v = Inr s' \<Longrightarrow> editingSaved (matchResults s) \<Longrightarrow> editingSaved (matchResults s')"
  unfolding editingSaved_def
  by (auto simp: handlePlayerGoalChange_def setSideScorers_def Let_def split: if_splits TeamNum.splits intro!: list_all_update_nth)

lemma es_handleSelectGoalScorer:
  "handleSelectGoalScorer s i t p = Inr s' \<Longrightarrow> editingSaved (matchResults s) \<Longrightarrow> editingSaved (matchResults s')"
  unfolding editingSaved_def
  by (auto simp: handleSelectGoalScorer_def setSideScorers_def Let_def split: if_splits TeamNum.splits intro!: list_all_update_nth)

lemma es_handleRemoveGoalScorer:
  "handleRemoveGoalScorer s i t p = Inr s' \<Longrightarrow> editingSaved (matchResults s) \<Longrightarrow> editingSaved (matchResults s')"
  unfolding editingSaved_def
  by (auto simp: handleRemoveGoalScorer_def setSideScorers_def Let_def split: if_splits TeamNum.splits intro!: list_all_update_nth)

lemma es_handleSaveResult:
  "handleSaveResult s i = Inr s' \<Longrightarrow> editingSaved (matchResults s) \<Longrightarrow> editingSaved (matchResults s')"
  unfolding editingSaved_def
  by (auto simp: handleSaveResult_def Let_def split: if_splits option.splits intro!: list_all_update_nth)

lemma es_handleEditResult:
  "handleEditResult s i = Inr s' \<Longrightarrow> saved (matchResults s ! i) \<Longrightarrow> editingSaved (matchResults s) \<Longrightarrow> editingSaved (matchResults s')"
  unfolding editingSaved_def
  by (auto simp: handleEditResult_def Let_def split: if_splits intro!: list_all_update_nth)

lemma es_handleCancelEdit:
  "handleCancelEdit s i = Inr s' \<Longrightarrow> editingSaved (matchResults s) \<Longrightarrow> editingSaved (matchResults s')"
  unfolding editingSaved_def
  by (auto simp: handleCancelEdit_def Let_def split: if_splits option.splits intro!: list_all_update_nth)

lemma es_fresh: "editingSaved (map (newMatchResult teams) ms)"
  by (simp add: editingSaved_def list_all_iff newMatchResult_def Let_def)

lemma es_startTheGames: "editingSaved (matchResults (startTheGames s teams))"
  by (simp add: startTheGames_def generateAllRoundRobinMatches_def Let_def es_fresh)
     (simp add: editingSaved_def)

lemma es_handleLoadLeague:
  "editingSaved (matchResults s) \<Longrightarrow> editingSaved (matchResults (handleLoadLeague s nm))"
  by (auto simp: handleLoadLeague_def Let_def editingSaved_def list_all_iff clearEditing_def resetGameStates_def split: option.splits)

lemma es_step:
  assumes "step s e = Some s'" "editingSaved (matchResults s)"
  shows "editingSaved (matchResults s')"
proof (cases e)
  case (ScoreChange i t v)
  with assms show ?thesis
    by (auto simp: ok_Some split: if_splits dest: es_handleScoreChange)
next
  case (PlayerGoalChange i t k v)
  with assms show ?thesis
    by (auto simp: ok_Some split: if_splits dest: es_handlePlayerGoalChange)
next
  case (SelectGoalScorer i t p)
  with assms show ?thesis
    by (auto simp: ok_Some split: if_splits dest: es_handleSelectGoalScorer)
next
  case (RemoveGoalScorer i t p)
  with assms show ?thesis
    by (auto simp: ok_Some split: if_splits dest: es_handleRemoveGoalScorer)
next
  case (SaveResult i)
  with assms show ?thesis
    by (auto simp: ok_Some split: if_splits dest: es_handleSaveResult)
next
  case (EditResult i)
  with assms show ?thesis
    by (auto simp: ok_Some editButtonOffered_def split: if_splits dest: es_handleEditResult)
next
  case (CancelEdit i)
  with assms show ?thesis
    by (auto simp: ok_Some split: if_splits dest: es_handleCancelEdit)
next
  case (SetupScreens n p td c)
  with assms show ?thesis by (auto split: if_splits)
next
  case (StartGames teams)
  with assms show ?thesis by (auto simp: es_startTheGames split: if_splits)
next
  case ResetGame
  with assms show ?thesis by (auto simp: resetGameStates_def editingSaved_def)
next
  case SaveLeagueClick
  with assms show ?thesis by (auto simp: handleSaveLeagueClick_def)
next
  case (SaveLeagueInput inp)
  with assms show ?thesis by auto
next
  case SaveLeagueConfirm
  with assms show ?thesis
    by (auto simp: handleSaveLeagueConfirm_def saveLeagueToStorage_def Let_def split: if_splits)
next
  case CancelSaveLeague
  with assms show ?thesis by (auto simp: handleCancelSaveLeague_def)
next
  case (LoadLeague nm)
  with assms show ?thesis by (auto simp: es_handleLoadLeague)
next
  case (DeleteLeague nm)
  with assms show ?thesis
    by (auto simp: handleDeleteLeague_def deleteLeagueFromStorage_def resetGameStates_def editingSaved_def Let_def)
next
  case (ViewChange a b c d e f g)
  with assms show ?thesis by auto
next
  case Reload
  with assms show ?thesis by (auto simp: initial_state_def editingSaved_def)
qed

lemma es_run:
  "run s es = Some s' \<Longrightarrow> editingSaved (matchResults s) \<Longrightarrow> editingSaved (matchResults s')"
proof (induction es arbitrary: s)
  case Nil
  then show ?case by simp
next
  case (Cons e es)
  then obtain s1 where s1: "step s e = Some s1" "run s1 es = Some s'"
    by (auto split: option.splits)
  from es_step[OF s1(1) Cons.prems(2)] Cons.IH[OF s1(2)] show ?case by blast
qed

text \<open>
  Claim C9. Entering edit mode is offered only on a saved result (the edit button is
  rendered in place of the save button exactly when the result is saved and not being
  edited), so in every state that a run reaches a result in edit mode is saved.
  \<^verbatim>\<open>handleEditResult\<close> stores the current scores and scorer lists as the snapshot and
  sets the editing flag; the scores and scorer lists themselves stay as they are.
\<close>

theorem edit_only_on_saved:
  "(run (initial_state Map.empty) es = Some s \<longrightarrow>
      list_all (\<lambda>r. isEditing r \<longrightarrow> saved r) (matchResults s)) \<and>
   (step s0 (EditResult i) = Some s1 \<longrightarrow> saved (matchResults s0 ! i)) \<and>
   (i < length (matchResults s0) \<longrightarrow>
      (let r = matchResults s0 ! i;
           r' = r\<lparr> isEditing := True,
                   originalScores := Some (team1Score r, team2Score r),
                   originalGoalScorers := Some (team1GoalScorers r, team2GoalScorers r),
                   goalScorerMismatch := False \<rparr>
       in handleEditResult s0 i = Inr (s0\<lparr> matchResults := (matchResults s0)[i := r'] \<rparr>) \<and>
          isEditing r' \<and>
          team1Score r' = team1Score r \<and> team2Score r' = team2Score r \<and>
          team1GoalScorers r' = team1GoalScorers r \<and> team2GoalScorers r' = team2GoalScorers r))"
proof (intro conjI impI)
  assume r: "run (initial_state Map.empty) es = Some s"
  have "editingSaved (matchResults (initial_state Map.empty))"
    by (simp add: initial_state_def editingSaved_def)
  from es_run[OF r this] show "list_all (\<lambda>r. isEditing r \<longrightarrow> saved r) (matchResults s)"
    by (simp add: editingSaved_def)
next
  assume "step s0 (EditResult i) = Some s1"
  then show "saved (matchResults s0 ! i)"
    by (auto simp: editButtonOffered_def split: if_splits)
next
  assume "i < length (matchResults s0)"
  then show "let r = matchResults s0 ! i;
           r' = r\<lparr> isEditing := True,
                   originalScores := Some (team1Score r, team2Score r),
                   originalGoalScorers := Some (team1GoalScorers r, team2GoalScorers r),
                   goalScorerMismatch := False \<rparr>
       in handleEditResult s0 i = Inr (s0\<lparr> matchResults := (matchResults s0)[i := r'] \<rparr>) \<and>
          isEditing r' \<and>
          team1Score r' = team1Score r \<and> team2Score r' = team2Score r \<and>
          team1GoalScorers r' = team1GoalScorers r \<and> team2GoalScorers r' = team2GoalScorers r"
    by (simp add: handleEditResult_def Let_def)
qed

theorem edit_only_on_saved_witness:
  "map_option (\<lambda>s. list_all (\<lambda>r. isEditing r \<longrightarrow> saved r) (matchResults s))
     (run (initial_state Map.empty) (savedTwoOne @ [EditResult 0])) = Some True \<and>
   (case step (leagueAB 0 ((resultAB (Some 2) (Some 1))\<lparr> saved := True \<rparr>) statsTwoOne)
           (EditResult 0) of
      None \<Rightarrow> False
    | Some s1 \<Rightarrow> saved (matchResults (leagueAB 0 ((resultAB (Some 2) (Some 1))\<lparr> saved := True \<rparr>)
                           statsTwoOne) ! 0) \<and>
                 isEditing (matchResults s1 ! 0) \<and>
                 originalScores (matchResults s1 ! 0) = Some (Some 2, Some 1) \<and>
                 team1Score (matchResults s1 ! 0) = Some 2 \<and>
                 team2Score (matchResults s1 ! 0) = Some 1)"
proof -
  let ?s0 = "leagueAB 0 ((resultAB (Some 2) (Some 1))\<lparr> saved := True \<rparr>) statsTwoOne"
  have "\<exists>s. run (initial_state Map.empty) (savedTwoOne @ [EditResult 0]) = Some s"
    by (simp add: savedTwoOne_def model_defs)
  then obtain s where s: "run (initial_state Map.empty) (savedTwoOne @ [EditResult 0]) = Some s" ..
  have "\<exists>s1. step ?s0 (EditResult 0) = Some s1"
    by (simp add: leagueAB_def resultAB_def model_defs)
  then obtain s1 where s1: "step ?s0 (EditResult 0) = Some s1" ..
  from edit_only_on_saved[of "savedTwoOne @ [EditResult 0]" s ?s0 0 s1] s s1
  have a: "list_all (\<lambda>r. isEditing r \<longrightarrow> saved r) (matchResults s)"
    and b: "saved (matchResults ?s0 ! 0)"
    by simp_all
  have c: "case step ?s0 (EditResult 0) of
      None \<Rightarrow> False
    | Some s1 \<Rightarrow> isEditing (matchResults s1 ! 0) \<and>
                 originalScores (matchResults s1 ! 0) = Some (Some 2, Some 1) \<and>
                 team1Score (matchResults s1 ! 0) = Some 2 \<and>
                 team2Score (matchResults s1 ! 0) = Some 1"
    by (simp add: leagueAB_def resultAB_def model_defs)
  show ?thesis
    using s a b c unfolding s1 by simp
qed


section \<open>Rejected saves\<close>

text \<open>
  Claim C1. With both scores set and a roster size above zero, a result whose scorer
  tallies do not sum to the two scores is not saved: \<^verbatim>\<open>handleSaveResult\<close> sets the
  mismatch flag of that result and opens the warning dialog, and changes nothing else
  (the saved flag of the result, the standings and the played pairs stay as they were).
\<close>

theorem save_rejected_on_mismatch:
  assumes "i < length (matchResults s)"
    and "team1Score (matchResults s ! i) = Some a"
    and "team2Score (matchResults s ! i) = Some b"
    and "numPlayersPerTeam s > 0"
    and "goalsSum (team1GoalScorers (matchResults s ! i)) \<noteq> a \<or>
         goalsSum (team2GoalScorers (matchResults s ! i)) \<noteq> b"
  shows "handleSaveResult s i =
           Inr (s\<lparr> warningMessage := GoalsDoNotMatchScore, warningModalType := Alert,
                   showWarningModal := True,
                   matchResults := (matchResults s)
                     [i := (matchResults s ! i)\<lparr> goalScorerMismatch := True \<rparr>] \<rparr>) \<and>
         (case handleSaveResult s i of
            Inl e \<Rightarrow> False
          | Inr s' \<Rightarrow>
              goalScorerMismatch (matchResults s' ! i) \<and>
              saved (matchResults s' ! i) = saved (matchResults s ! i) \<and>
              teamStats s' = teamStats s \<and>
              allPlayedPairs s' = allPlayedPairs s)"
  using assms by (auto simp: handleSaveResult_def Let_def)


theorem save_rejected_on_mismatch_witness:
  "0 < length (matchResults (leagueAB 2 (resultAB (Some 2) (Some 1)) zeroAB)) \<and>
   team1Score (matchResults (leagueAB 2 (resultAB (Some 2) (Some 1)) zeroAB) ! 0) = Some 2 \<and>
   team2Score (matchResults (leagueAB 2 (resultAB (Some 2) (Some 1)) zeroAB) ! 0) = Some 1 \<and>
   numPlayersPerTeam (leagueAB 2 (resultAB (Some 2) (Some 1)) zeroAB) > 0 \<and>
   goalsSum (team1GoalScorers (matchResults (leagueAB 2 (resultAB (Some 2) (Some 1)) zeroAB) ! 0)) \<noteq> 2 \<and>
   (case handleSaveResult (leagueAB 2 (resultAB (Some 2) (Some 1)) zeroAB) 0 of
      Inl e \<Rightarrow> False
    | Inr s' \<Rightarrow> goalScorerMismatch (matchResults s' ! 0) \<and> \<not> saved (matchResults s' ! 0) \<and>
               teamStats s' = zeroAB \<and> allPlayedPairs s' = [])"
proof -
  let ?s = "leagueAB 2 (resultAB (Some 2) (Some 1)) zeroAB"
  have h1: "0 < length (matchResults ?s)" by (simp add: leagueAB_def)
  have h2: "team1Score (matchResults ?s ! 0) = Some 2" by (simp add: leagueAB_def resultAB_def)
  have h3: "team2Score (matchResults ?s ! 0) = Some 1" by (simp add: leagueAB_def resultAB_def)
  have h4: "numPlayersPerTeam ?s > 0"
    by (simp add: leagueAB_def model_defs)
  have h5: "goalsSum (team1GoalScorers (matchResults ?s ! 0)) \<noteq> 2"
    by (simp add: leagueAB_def resultAB_def model_defs)
  have st: "teamStats ?s = zeroAB" by (simp add: leagueAB_def)
  have pp: "allPlayedPairs ?s = []"
    by (simp add: leagueAB_def model_defs)
  have sv: "\<not> saved (matchResults ?s ! 0)" by (simp add: leagueAB_def resultAB_def model_defs)
  from save_rejected_on_mismatch[OF h1 h2 h3 h4 disjI1[OF h5]]
  have "case handleSaveResult ?s 0 of
            Inl e \<Rightarrow> False
          | Inr s' \<Rightarrow>
              goalScorerMismatch (matchResults s' ! 0) \<and>
              saved (matchResults s' ! 0) = saved (matchResults ?s ! 0) \<and>
              teamStats s' = teamStats ?s \<and>
              allPlayedPairs s' = allPlayedPairs ?s" by blast
  then have "case handleSaveResult ?s 0 of
      Inl e \<Rightarrow> False
    | Inr s' \<Rightarrow> goalScorerMismatch (matchResults s' ! 0) \<and> \<not> saved (matchResults s' ! 0) \<and>
               teamStats s' = zeroAB \<and> allPlayedPairs s' = []"
    using st pp sv by (auto split: sum.splits)
  with h1 h2 h3 h4 h5 show ?thesis by blast
qed

section \<open>Adding a goal scorer\<close>

lemma setSide_same: "setSideScorers t (sideScorers t r) r = r"
  by (cases t) (simp_all add: setSideScorers_def sideScorers_def)

lemma setSide_same_flag:
  "setSideScorers t (sideScorers t r) (r\<lparr> goalScorerMismatch := b \<rparr>) = r\<lparr> goalScorerMismatch := b \<rparr>"
  by (cases t) (simp_all add: setSideScorers_def sideScorers_def)

lemma sideScorers_setSide: "sideScorers t ((setSideScorers t xs r)\<lparr> goalScorerMismatch := b \<rparr>) = xs"
  by (cases t) (simp_all add: setSideScorers_def sideScorers_def)

lemma setSide_twice:
  "setSideScorers t xs ((setSideScorers t ys r)\<lparr> goalScorerMismatch := False \<rparr>)\<lparr> goalScorerMismatch := False \<rparr>
   = (setSideScorers t xs r)\<lparr> goalScorerMismatch := False \<rparr>"
  by (cases t) (simp_all add: setSideScorers_def)

lemma find_Some_pred: "find P xs = Some x \<Longrightarrow> P x"
  by (induction xs) (auto split: if_splits)

text \<open>
  Claim C6, as the code has it. For a player of the team that the chosen side of the
  match refers to (with a non-empty identity, as every generated identity is):
  \<^verbatim>\<open>handleSelectGoalScorer\<close> appends a tally of one goal for the player when that side
  has no tally for the player yet, and leaves the scorer list as it is when it has one;
  a second selection of the same player gives the same state again.
\<close>

theorem add_goal_scorer:
  assumes i: "i < length (matchResults s)" and pid: "pid \<noteq> []"
    and team: "find (\<lambda>t. team_id t = (case teamNum of One \<Rightarrow> team1Id (matchResults s ! i)
                                                       | Two \<Rightarrow> team2Id (matchResults s ! i)))
                 (submittedTeamData s) = Some team"
    and player: "find (\<lambda>p. player_id p = pid) (players team) = Some player"
  shows "(\<not> list_ex (\<lambda>sc. playerId sc = pid) (sideScorers teamNum (matchResults s ! i)) \<longrightarrow>
            handleSelectGoalScorer s i teamNum pid =
              Inr (s\<lparr> matchResults := (matchResults s)
                     [i := (setSideScorers teamNum
                              (sideScorers teamNum (matchResults s ! i) @
                                 [\<lparr> playerId = pid, playerName = player_name player, goals = 1 \<rparr>])
                              (matchResults s ! i))\<lparr> goalScorerMismatch := False \<rparr>] \<rparr>)) \<and>
         (list_ex (\<lambda>sc. playerId sc = pid) (sideScorers teamNum (matchResults s ! i)) \<longrightarrow>
            handleSelectGoalScorer s i teamNum pid =
              Inr (s\<lparr> matchResults := (matchResults s)
                     [i := (matchResults s ! i)\<lparr> goalScorerMismatch := False \<rparr>] \<rparr>)) \<and>
         (case handleSelectGoalScorer s i teamNum pid of
            Inl e \<Rightarrow> False
          | Inr s1 \<Rightarrow> handleSelectGoalScorer s1 i teamNum pid = Inr s1)"
proof -
  let ?r = "matchResults s ! i"
  let ?new = "\<lparr> playerId = pid, playerName = player_name player, goals = 1 \<rparr>"
  have pl: "player_id player = pid" using find_Some_pred[OF player] .
  have A: "\<not> list_ex (\<lambda>sc. playerId sc = pid) (sideScorers teamNum ?r) \<Longrightarrow>
            handleSelectGoalScorer s i teamNum pid =
              Inr (s\<lparr> matchResults := (matchResults s)
                     [i := (setSideScorers teamNum (sideScorers teamNum ?r @ [?new]) ?r)
                             \<lparr> goalScorerMismatch := False \<rparr>] \<rparr>)"
    using i pid team player pl by (simp add: handleSelectGoalScorer_def Let_def)
  have B: "list_ex (\<lambda>sc. playerId sc = pid) (sideScorers teamNum ?r) \<Longrightarrow>
            handleSelectGoalScorer s i teamNum pid =
              Inr (s\<lparr> matchResults := (matchResults s)[i := ?r\<lparr> goalScorerMismatch := False \<rparr>] \<rparr>)"
    using i pid by (simp add: handleSelectGoalScorer_def Let_def setSide_same)
  have C: "case handleSelectGoalScorer s i teamNum pid of
            Inl e \<Rightarrow> False
          | Inr s1 \<Rightarrow> handleSelectGoalScorer s1 i teamNum pid = Inr s1"
  proof (cases "list_ex (\<lambda>sc. playerId sc = pid) (sideScorers teamNum ?r)")
    case True
    have "sideScorers teamNum (?r\<lparr> goalScorerMismatch := False \<rparr>) = sideScorers teamNum ?r"
      by (cases teamNum) (simp_all add: sideScorers_def)
    with True i pid show ?thesis
      by (simp add: B) (simp add: handleSelectGoalScorer_def Let_def setSide_same_flag)
  next
    case False
    with i pid show ?thesis
      by (simp add: A)
         (simp add: handleSelectGoalScorer_def Let_def sideScorers_setSide setSide_twice)
  qed
  from A B C show ?thesis by blast
qed


theorem add_goal_scorer_witness:
  "0 < length (matchResults (leagueAB 2 (resultAB (Some 2) (Some 1)) zeroAB)) \<and>
   ''id-1'' \<noteq> [] \<and>
   find (\<lambda>t. team_id t = team1Id (matchResults (leagueAB 2 (resultAB (Some 2) (Some 1)) zeroAB) ! 0))
     (submittedTeamData (leagueAB 2 (resultAB (Some 2) (Some 1)) zeroAB)) = Some teamA \<and>
   find (\<lambda>p. player_id p = ''id-1'') (players teamA)
     = Some \<lparr> player_id = ''id-1'', player_name = ''a1'' \<rparr> \<and>
   handleSelectGoalScorer (leagueAB 2 (resultAB (Some 2) (Some 1)) zeroAB) 0 One ''id-1'' =
     Inr ((leagueAB 2 (resultAB (Some 2) (Some 1)) zeroAB)
            \<lparr> matchResults :=
                [(resultAB (Some 2) (Some 1))
                   \<lparr> team1GoalScorers :=
                       [\<lparr> playerId = ''id-1'', playerName = ''a1'', goals = 1 \<rparr>] \<rparr>] \<rparr>) \<and>
   handleSelectGoalScorer
     ((leagueAB 2 (resultAB (Some 2) (Some 1)) zeroAB)
            \<lparr> matchResults :=
                [(resultAB (Some 2) (Some 1))
                   \<lparr> team1GoalScorers :=
                       [\<lparr> playerId = ''id-1'', playerName = ''a1'', goals = 1 \<rparr>] \<rparr>] \<rparr>)
     0 One ''id-1'' =
     Inr ((leagueAB 2 (resultAB (Some 2) (Some 1)) zeroAB)
            \<lparr> matchResults :=
                [(resultAB (Some 2) (Some 1))
                   \<lparr> team1GoalScorers :=
                       [\<lparr> playerId = ''id-1'', playerName = ''a1'', goals = 1 \<rparr>] \<rparr>] \<rparr>)"
proof -
  let ?s = "leagueAB 2 (resultAB (Some 2) (Some 1)) zeroAB"
  let ?s1 = "?s\<lparr> matchResults :=
                [(resultAB (Some 2) (Some 1))
                   \<lparr> team1GoalScorers :=
                       [\<lparr> playerId = ''id-1'', playerName = ''a1'', goals = 1 \<rparr>] \<rparr>] \<rparr>"
  have h1: "0 < length (matchResults ?s)" by (simp add: leagueAB_def)
  have h2: "''id-1'' \<noteq> []" by simp
  have h3: "find (\<lambda>t. team_id t = (case One of One \<Rightarrow> team1Id (matchResults ?s ! 0)
                                              | Two \<Rightarrow> team2Id (matchResults ?s ! 0)))
              (submittedTeamData ?s) = Some teamA"
    by (simp add: leagueAB_def resultAB_def model_defs)
  have h4: "find (\<lambda>p. player_id p = ''id-1'') (players teamA)
              = Some \<lparr> player_id = ''id-1'', player_name = ''a1'' \<rparr>"
    by (simp add: teamA_def)
  have none: "\<not> list_ex (\<lambda>sc. playerId sc = ''id-1'') (sideScorers One (matchResults ?s ! 0))"
    by (simp add: sideScorers_def leagueAB_def resultAB_def model_defs)
  note inst = add_goal_scorer[OF h1 h2 h3 h4]
  from inst none have first: "handleSelectGoalScorer ?s 0 One ''id-1'' = Inr ?s1"
    by (simp add: sideScorers_def setSideScorers_def leagueAB_def resultAB_def model_defs)
  from inst have "case handleSelectGoalScorer ?s 0 One ''id-1'' of
            Inl e \<Rightarrow> False
          | Inr s1 \<Rightarrow> handleSelectGoalScorer s1 0 One ''id-1'' = Inr s1" by blast
  then have second: "handleSelectGoalScorer ?s1 0 One ''id-1'' = Inr ?s1"
    unfolding first by simp
  from h1 h2 h3 h4 first second show ?thesis by simp
qed

text \<open>
  The tally that \<^verbatim>\<open>handleSelectGoalScorer\<close> appends starts at one goal, not at zero:
  selecting player a1 for team A in the match A-B.
\<close>

theorem add_goal_scorer_starts_at_one:
  "handleSelectGoalScorer (leagueAB 2 (resultAB (Some 2) (Some 1)) zeroAB) 0 One ''id-1'' =
     Inr ((leagueAB 2 (resultAB (Some 2) (Some 1)) zeroAB)
            \<lparr> matchResults :=
                [(resultAB (Some 2) (Some 1))
                   \<lparr> team1GoalScorers :=
                       [\<lparr> playerId = ''id-1'', playerName = ''a1'', goals = 1 \<rparr>] \<rparr>] \<rparr>) \<and>
   handleSelectGoalScorer (leagueAB 2 (resultAB (Some 2) (Some 1)) zeroAB) 0 One ''id-1'' \<noteq>
     Inr ((leagueAB 2 (resultAB (Some 2) (Some 1)) zeroAB)
            \<lparr> matchResults :=
                [(resultAB (Some 2) (Some 1))
                   \<lparr> team1GoalScorers :=
                       [\<lparr> playerId = ''id-1'', playerName = ''a1'', goals = 0 \<rparr>] \<rparr>] \<rparr>)"
  by (simp add: handleSelectGoalScorer_def sideScorers_def setSideScorers_def leagueAB_def
        resultAB_def model_defs)


section \<open>Saving and loading a league\<close>








section \<open>Fixtures of a single round robin\<close>


















section \<open>Top scorers\<close>

lemma map_of_assign: "map_of (assign k v ps) = (map_of ps)(k \<mapsto> v)"
  by (induction ps) (auto simp: fun_eq_iff)

lemma keys_assign:
  "map fst (assign k v ps) = (if k \<in> set (map fst ps) then map fst ps else map fst ps @ [k])"
  by (induction ps) auto

lemma distinct_assign: "distinct (map fst ps) \<Longrightarrow> distinct (map fst (assign k v ps))"
  by (simp add: keys_assign)

lemma distinct_tallyScorer:
  "distinct (map fst pg) \<Longrightarrow> distinct (map fst (tallyScorer tag pg sc))"
  by (simp add: tallyScorer_def distinct_assign split: option.splits)

lemma tallyMatch_entries:
  "tallyMatch teams pg m =
     foldl tallyEntry pg
       (map (Pair (teamNameOf teams (team1Id m))) (team1GoalScorers m) @
        map (Pair (teamNameOf teams (team2Id m))) (team2GoalScorers m))"
  by (simp add: tallyMatch_def Let_def foldl_map tallyEntry_def)

lemma foldl_tallyMatch:
  "foldl (tallyMatch teams) pg results = foldl tallyEntry pg (talliesOf results teams)"
  by (induction results arbitrary: pg) (simp_all add: talliesOf_def tallyMatch_entries)

lemma playerGoalsOf_entries:
  "playerGoalsOf results teams = foldl tallyEntry [] (talliesOf results teams)"
  by (simp add: playerGoalsOf_def foldl_tallyMatch)

lemma distinct_tallyEntry:
  "distinct (map fst pg) \<Longrightarrow> distinct (map fst (tallyEntry pg x))"
  by (simp add: tallyEntry_def distinct_tallyScorer)

lemma distinct_foldl_tallyEntry:
  "distinct (map fst pg) \<Longrightarrow> distinct (map fst (foldl tallyEntry pg xs))"
  by (induction xs arbitrary: pg) (simp_all add: distinct_tallyEntry)

lemma map_of_tallyEntry:
  "map_of (tallyEntry pg x) pid =
     (if playerId (snd x) = pid
      then Some (case map_of pg pid of
                   Some e \<Rightarrow> e\<lparr> scorer_goals := scorer_goals e + goals (snd x) \<rparr>
                 | None \<Rightarrow> \<lparr> scorer_name = playerName (snd x), scorer_goals = goals (snd x),
                              scorer_teamName = fst x \<rparr>)
      else map_of pg pid)"
  by (simp add: tallyEntry_def tallyScorer_def map_of_assign split: option.splits)

lemma map_of_foldl_tallyEntry:
  "map_of (foldl tallyEntry pg xs) pid = combine (map_of pg pid) pid xs"
proof (induction xs arbitrary: pg)
  case Nil
  show ?case by (simp add: combine_def goalsOfPlayer_def split: option.splits)
next
  case (Cons x xs)
  show ?case
  proof (cases "playerId (snd x) = pid")
    case True
    then show ?thesis
      by (simp add: Cons.IH map_of_tallyEntry combine_def goalsOfPlayer_def
            split: option.splits)
  next
    case False
    then show ?thesis
      by (simp add: Cons.IH map_of_tallyEntry combine_def goalsOfPlayer_def
            split: option.splits)
  qed
qed

lemma talliesOf_saved:
  "talliesOf (map (\<lambda>m. m\<lparr> saved := flag m \<rparr>) results) teams = talliesOf results teams"
  by (simp add: talliesOf_def comp_def)

text \<open>
  Claim C5. The top-scorer aggregation visits the tallies of every match result, whether
  the result is saved or not (changing saved flags does not change its output). The
  dictionary it builds has one entry per player with a tally; the entry holds the sum of
  all tallies of that player, in every result and on either side, together with the
  player's name and the name of the team that the side of the player's first tally
  refers to. The output is the list of these entries, sorted by decreasing goals.
\<close>

theorem top_scorers_over_all_results:
  "distinct (map fst (playerGoalsOf results teams)) \<and>
   (\<forall>pid. map_of (playerGoalsOf results teams) pid =
      (case find (\<lambda>p. playerId (snd p) = pid) (talliesOf results teams) of
         None \<Rightarrow> None
       | Some p \<Rightarrow> Some \<lparr> scorer_name = playerName (snd p),
                          scorer_goals = goalsOfPlayer pid (talliesOf results teams),
                          scorer_teamName = fst p \<rparr>)) \<and>
   mset (calculateTopScorers results teams) = mset (map snd (playerGoalsOf results teams)) \<and>
   sorted_wrt (\<lambda>a b. scorer_goals a \<ge> scorer_goals b) (calculateTopScorers results teams) \<and>
   calculateTopScorers (map (\<lambda>m. m\<lparr> saved := flag m \<rparr>) results) teams =
     calculateTopScorers results teams"
proof (intro conjI allI)
  show "distinct (map fst (playerGoalsOf results teams))"
    by (simp add: playerGoalsOf_entries distinct_foldl_tallyEntry)
next
  fix pid
  show "map_of (playerGoalsOf results teams) pid =
      (case find (\<lambda>p. playerId (snd p) = pid) (talliesOf results teams) of
         None \<Rightarrow> None
       | Some p \<Rightarrow> Some \<lparr> scorer_name = playerName (snd p),
                          scorer_goals = goalsOfPlayer pid (talliesOf results teams),
                          scorer_teamName = fst p \<rparr>)"
    by (simp add: playerGoalsOf_entries map_of_foldl_tallyEntry combine_def)
next
  show "mset (calculateTopScorers results teams) = mset (map snd (playerGoalsOf results teams))"
    by (simp add: calculateTopScorers_def)
next
  have "sorted (map (\<lambda>e. - scorer_goals e) (calculateTopScorers results teams))"
    by (simp add: calculateTopScorers_def sorted_sort_key)
  then show "sorted_wrt (\<lambda>a b. scorer_goals a \<ge> scorer_goals b) (calculateTopScorers results teams)"
    by (simp add: sorted_map)
next
  show "calculateTopScorers (map (\<lambda>m. m\<lparr> saved := flag m \<rparr>) results) teams =
     calculateTopScorers results teams"
    by (simp add: calculateTopScorers_def playerGoalsOf_entries talliesOf_saved)
qed


theorem top_scorers_over_all_results_witness:
  "calculateTopScorers twoResults [teamA, teamB, teamC] =
     [\<lparr> scorer_name = ''a1'', scorer_goals = 3, scorer_teamName = ''A'' \<rparr>,
      \<lparr> scorer_name = ''b1'', scorer_goals = 1, scorer_teamName = ''B'' \<rparr>] \<and>
   map_of (playerGoalsOf twoResults [teamA, teamB, teamC]) ''id-1'' =
     Some \<lparr> scorer_name = ''a1'', scorer_goals = 3, scorer_teamName = ''A'' \<rparr> \<and>
   sorted_wrt (\<lambda>a b. scorer_goals a \<ge> scorer_goals b)
     (calculateTopScorers twoResults [teamA, teamB, teamC])"
proof -
  have ev: "calculateTopScorers twoResults [teamA, teamB, teamC] =
     [\<lparr> scorer_name = ''a1'', scorer_goals = 3, scorer_teamName = ''A'' \<rparr>,
      \<lparr> scorer_name = ''b1'', scorer_goals = 1, scorer_teamName = ''B'' \<rparr>]"
    by (simp add: calculateTopScorers_def playerGoalsOf_def tallyMatch_def tallyScorer_def
          teamNameOf_def twoResults_def model_defs)
  have ts: "talliesOf twoResults [teamA, teamB, teamC] =
     [(''A'', \<lparr> playerId = ''id-1'', playerName = ''a1'', goals = 2 \<rparr>),
      (''B'', \<lparr> playerId = ''id-4'', playerName = ''b1'', goals = 1 \<rparr>),
      (''A'', \<lparr> playerId = ''id-1'', playerName = ''a1'', goals = 1 \<rparr>)]"
    by (simp add: talliesOf_def teamNameOf_def twoResults_def model_defs)
  note inst = top_scorers_over_all_results[of twoResults "[teamA, teamB, teamC]"]
  from inst have "map_of (playerGoalsOf twoResults [teamA, teamB, teamC]) ''id-1'' =
      (case find (\<lambda>p. playerId (snd p) = ''id-1'') (talliesOf twoResults [teamA, teamB, teamC]) of
         None \<Rightarrow> None
       | Some p \<Rightarrow> Some \<lparr> scorer_name = playerName (snd p),
                          scorer_goals = goalsOfPlayer ''id-1'' (talliesOf twoResults [teamA, teamB, teamC]),
                          scorer_teamName = fst p \<rparr>)" by blast
  then have a: "map_of (playerGoalsOf twoResults [teamA, teamB, teamC]) ''id-1'' =
     Some \<lparr> scorer_name = ''a1'', scorer_goals = 3, scorer_teamName = ''A'' \<rparr>"
    unfolding ts by (simp add: goalsOfPlayer_def)
  from inst have b: "sorted_wrt (\<lambda>a b. scorer_goals a \<ge> scorer_goals b)
     (calculateTopScorers twoResults [teamA, teamB, teamC])" by blast
  from ev a b show ?thesis by blast
qed

section \<open>Algebra of the standings accumulator\<close>





















section \<open>Editing and resaving a result\<close>

















section \<open>Totals of the standings\<close>















































end
